theory Spec2Isabelle
  imports Complex_Main "HOL-Library.Product_Lexorder"
begin

section \<open>Data model of \<open>components/document_processor.py\<close>\<close>

text \<open>
  Python strings are modelled as \<open>string\<close> (one \<open>char\<close> per code point below 256).
  The floats of an embedding are modelled as \<open>real\<close>. In the search the arithmetic on them
  is exact, so rounding and overflow are not part of that model; what IEEE division by
  zero returns is modelled separately, further down. In the document network, where a
  comparison with a threshold decides whether an edge exists, the float64 results are
  taken as numpy computes them.
\<close>

type_synonym vec = "real list"

text \<open>The dictionary built in \<open>process_document\<close> (lines 95-101).\<close>

record document =
  id_d :: string
  filename_d :: string
  type_d :: string
  size_d :: nat
  processed_date_d :: string

text \<open>The dictionary built in \<open>_split_into_sections\<close> (lines 182-189).\<close>

record section_rec =
  id_s :: string
  document_id_s :: string
  index_s :: nat
  title_s :: string
  content_s :: string
  word_count_s :: nat

text \<open>The three in-memory collections of \<open>DocumentProcessor\<close> (lines 22-24).\<close>

record store =
  documents :: "document list"
  sections :: "section_rec list"
  embeddings :: "vec list"

definition empty_store :: store where
  "empty_store = \<lparr>documents = [], sections = [], embeddings = []\<rparr>"

subsection \<open>Durable state\<close>

text \<open>
  One file of the \<open>data/\<close> directory: \<open>Missing\<close> when \<open>os.path.exists\<close> is false,
  \<open>Corrupt\<close> when the file exists and reading it raises (\<open>json.load\<close> on a truncated
  file, \<open>np.load\<close> on bytes that are no array), \<open>Stored x\<close> when reading it returns \<open>x\<close>.
  \<open>json.dump\<close> followed by \<open>json.load\<close> is taken to return the same list of dictionaries,
  and \<open>np.save\<close> followed by \<open>np.load(...).tolist()\<close> the same rows.
\<close>

datatype 'a db_file = Missing | Corrupt | Stored 'a

record disk =
  documents_db :: "document list db_file"
  sections_db :: "section_rec list db_file"
  embeddings_db :: "vec list db_file"

datatype py_error =
    ValueError
  | IndexError
  | AttributeError
  | TypeError
  | UnicodeDecodeError
  | ExtractionError
  | OracleFailure

text \<open>
  \<open>np.array(rows)\<close> on a list of float lists: a two-dimensional array when all rows have
  one length, \<open>ValueError\<close> (inhomogeneous shape) otherwise.
\<close>

definition rectangular :: "vec list \<Rightarrow> bool" where
  "rectangular rows = (case rows of [] \<Rightarrow> True | r # rs \<Rightarrow> list_all (\<lambda>x. length x = length r) rs)"

definition np_array :: "vec list \<Rightarrow> py_error + vec list" where
  "np_array rows = (if rectangular rows then Inr rows else Inl ValueError)"

text \<open>
  \<open>_load_data\<close> (lines 35-53). The three reads run in order inside one \<open>try\<close>; the first
  read that raises jumps to the handler, which prints and sets \<open>self.embeddings = []\<close>.
  What was assigned before the raise stays assigned.
\<close>

definition load_data :: "disk \<Rightarrow> store \<Rightarrow> store" where
  "load_data d st =
     (case documents_db d of
        Corrupt \<Rightarrow> st\<lparr>embeddings := []\<rparr>
      | f1 \<Rightarrow>
          (let st1 = (case f1 of Stored ds \<Rightarrow> st\<lparr>documents := ds\<rparr> | _ \<Rightarrow> st) in
           case sections_db d of
             Corrupt \<Rightarrow> st1\<lparr>embeddings := []\<rparr>
           | f2 \<Rightarrow>
               (let st2 = (case f2 of Stored ss \<Rightarrow> st1\<lparr>sections := ss\<rparr> | _ \<Rightarrow> st1) in
                case embeddings_db d of
                  Corrupt \<Rightarrow> st2\<lparr>embeddings := []\<rparr>
                | Stored es \<Rightarrow> st2\<lparr>embeddings := es\<rparr>
                | Missing \<Rightarrow> st2)))"

text \<open>\<open>__init__\<close> (lines 19-33): empty collections, then \<open>_load_data\<close>.\<close>

definition init :: "disk \<Rightarrow> store" where
  "init d = load_data d empty_store"

text \<open>
  \<open>_save_data\<close> (lines 55-69): both JSON files are rewritten; the array file is written
  only when \<open>len(self.embeddings) > 0\<close>, and a \<open>ValueError\<close> of \<open>np.array\<close> is caught and
  printed after the two JSON files have been written. Opening and writing a file is taken
  to succeed (the directory is made in \<open>__init__\<close>).
\<close>

definition save_data :: "store \<Rightarrow> disk \<Rightarrow> disk" where
  "save_data st d =
     (let d1 = d\<lparr>documents_db := Stored (documents st)\<rparr>;
          d2 = d1\<lparr>sections_db := Stored (sections st)\<rparr>
      in if length (embeddings st) > 0
         then (case np_array (embeddings st) of
                 Inr a \<Rightarrow> d2\<lparr>embeddings_db := Stored a\<rparr>
               | Inl e \<Rightarrow> d2)
         else d2)"

definition some_corrupt :: "disk \<Rightarrow> bool" where
  "some_corrupt d = (documents_db d = Corrupt \<or> sections_db d = Corrupt \<or> embeddings_db d = Corrupt)"

definition example_doc :: document where
  "example_doc = \<lparr>id_d = ''d1'', filename_d = ''a.txt'', type_d = ''txt'', size_d = 3,
                  processed_date_d = ''2024-01-01T00:00:00''\<rparr>"

definition example_section :: section_rec where
  "example_section = \<lparr>id_s = ''s1'', document_id_s = ''d1'', index_s = 0,
                      title_s = ''Section 1'', content_s = ''abc'', word_count_s = 1\<rparr>"

subsection \<open>String functions of the Python library\<close>

text \<open>\<open>str.isspace\<close> on one code point below 256.\<close>

definition isspace :: "char \<Rightarrow> bool" where
  "isspace c = ((of_char c :: nat) \<in> {9, 10, 11, 12, 13, 28, 29, 30, 31, 32, 133, 160})"

text \<open>\<open>s.strip()\<close>: leading and trailing whitespace removed.\<close>

definition strip :: "string \<Rightarrow> string" where
  "strip s = rev (dropWhile isspace (rev (dropWhile isspace s)))"

text \<open>
  \<open>s.split()\<close>: the maximal runs of non-whitespace characters. The first argument holds
  the run being read, reversed.
\<close>

fun split_ws :: "string \<Rightarrow> string \<Rightarrow> string list" where
  "split_ws cur [] = (if cur = [] then [] else [rev cur])"
| "split_ws cur (c # cs) =
     (if isspace c
      then (if cur = [] then split_ws [] cs else rev cur # split_ws [] cs)
      else split_ws (c # cur) cs)"

text \<open>
  \<open>text.split("\n\n")\<close>: the text is cut at every occurrence of two newlines, found from
  the left without overlap. The first argument holds the block being read, reversed.
\<close>

fun split_nn :: "string \<Rightarrow> string \<Rightarrow> string list" where
  "split_nn cur [] = [rev cur]"
| "split_nn cur [c] = [rev (c # cur)]"
| "split_nn cur (c1 # c2 # cs) =
     (if c1 = CHR 0x0A \<and> c2 = CHR 0x0A
      then rev cur # split_nn [] cs
      else split_nn (c1 # cur) (c2 # cs))"

text \<open>\<open>str(n)\<close> for a non-negative integer, as an f-string formats it.\<close>

definition digit_char :: "nat \<Rightarrow> char" where
  "digit_char n = char_of (48 + n)"

function str_nat :: "nat \<Rightarrow> string" where
  "str_nat n = (if n < 10 then [digit_char n] else str_nat (n div 10) @ [digit_char (n mod 10)])"
  by pat_completeness auto
termination
  by (relation "measure (\<lambda>n. n)") auto

declare str_nat.simps [simp del]

text \<open>\<open>str.lower\<close> on one code point below 256, and on a string.\<close>

definition lower_char :: "char \<Rightarrow> char" where
  "lower_char c =
     (let n = (of_char c :: nat)
      in if (65 \<le> n \<and> n \<le> 90) \<or> (192 \<le> n \<and> n \<le> 222 \<and> n \<noteq> 215) then char_of (n + 32) else c)"

definition lower :: "string \<Rightarrow> string" where
  "lower s = map lower_char s"

text \<open>\<open>s.rfind(c)\<close> for a single character: the last position of \<open>c\<close>, or \<open>-1\<close>.\<close>

definition rfind :: "char \<Rightarrow> string \<Rightarrow> int" where
  "rfind c s =
     (if c \<in> set s then int (length s) - 1 - int (length (takeWhile (\<lambda>x. x \<noteq> c) (rev s)))
      else - 1)"

text \<open>
  \<open>os.path.splitext\<close> (POSIX): the extension starts at the last dot of the path, when that
  dot comes after the last slash and some character between the slash and the dot is not
  a dot; otherwise the extension is empty.
\<close>

definition splitext :: "string \<Rightarrow> string \<times> string" where
  "splitext p =
     (let sepIndex = rfind CHR ''/'' p;
          dotIndex = rfind CHR ''.'' p
      in if dotIndex > sepIndex
            \<and> list_ex (\<lambda>c. c \<noteq> CHR ''.'')
                 (take (nat (dotIndex - (sepIndex + 1))) (drop (nat (sepIndex + 1)) p))
         then (take (nat dotIndex) p, drop (nat dotIndex) p)
         else (p, []))"


subsection \<open>Ingestion\<close>

text \<open>The uploaded file: \<open>file.name\<close> and the bytes of \<open>file.read()\<close>.\<close>

record upload =
  name_f :: string
  content_f :: string

text \<open>
  What the segmentation request and the parse of its answer (lines 161-172) can do: the
  request itself raises; \<open>json.loads(...)['sections']\<close> raises \<open>JSONDecodeError\<close> or
  \<open>KeyError\<close>; it raises another exception; or it returns a list, whose items are
  dictionaries with an optional title and an optional string content, or something that
  has no \<open>get\<close>.
\<close>

datatype seg_item = Item "string option" "string option" | NotADict

datatype seg_response =
    CallFails
  | RaisesJSONDecodeError
  | RaisesKeyError
  | RaisesOther py_error
  | Parsed "seg_item list"

text \<open>
  Everything one call of \<open>process_document\<close> takes from outside the program: the random
  identifiers of \<open>uuid.uuid4()\<close>, the clock, the page texts \<open>PyPDF2\<close> extracts and the
  paragraph texts \<open>python-docx\<close> reads (or the exception they raise), the UTF-8 decoder,
  and the two remote models. The embedding model is asked once per section; its answer
  may depend on the position of the request within the call.
\<close>

record env =
  uuid_doc :: string
  uuid_section :: "nat \<Rightarrow> string"
  now :: string
  pdf_pages :: "string \<Rightarrow> py_error + string list"
  docx_paragraphs :: "string \<Rightarrow> py_error + string list"
  decode_utf8 :: "string \<Rightarrow> py_error + string"
  seg_oracle :: "string list \<Rightarrow> seg_response"
  embed_oracle :: "nat \<Rightarrow> string \<Rightarrow> py_error + vec"

text \<open>The fallback list of line 175-176: \<open>i\<close> is the position among all blocks.\<close>

definition fallback_sections :: "string list \<Rightarrow> seg_item list" where
  "fallback_sections sections_text =
     map (\<lambda>(i, s). Item (Some (''Section '' @ str_nat (i + 1))) (Some s))
         (filter (\<lambda>(i, s). strip s \<noteq> []) (enumerate 0 sections_text))"

definition get_content :: "string option \<Rightarrow> string" where
  "get_content c = (case c of None \<Rightarrow> [] | Some s \<Rightarrow> s)"

text \<open>The loop of lines 179-189, from position \<open>i\<close> on.\<close>

fun format_sections :: "env \<Rightarrow> string \<Rightarrow> nat \<Rightarrow> seg_item list \<Rightarrow> py_error + section_rec list" where
  "format_sections e doc_id i [] = Inr []"
| "format_sections e doc_id i (NotADict # rest) = Inl AttributeError"
| "format_sections e doc_id i (Item t c # rest) =
     (case format_sections e doc_id (i + 1) rest of
        Inl err \<Rightarrow> Inl err
      | Inr result \<Rightarrow>
          Inr (\<lparr>id_s = uuid_section e i,
                document_id_s = doc_id,
                index_s = i,
                title_s = (case t of Some x \<Rightarrow> x | None \<Rightarrow> ''Section '' @ str_nat (i + 1)),
                content_s = strip (get_content c),
                word_count_s = length (split_ws [] (get_content c))\<rparr> # result))"

text \<open>
  \<open>_split_into_sections\<close> (lines 142-191). The request is outside the \<open>try\<close>, so its
  failure is raised to the caller; only \<open>JSONDecodeError\<close> and \<open>KeyError\<close> reach the fallback.
\<close>

definition split_into_sections :: "env \<Rightarrow> string \<Rightarrow> string \<Rightarrow> py_error + section_rec list" where
  "split_into_sections e text doc_id =
     (let sections_text = split_nn [] text in
      case seg_oracle e (take 10 sections_text) of
        CallFails \<Rightarrow> Inl OracleFailure
      | RaisesOther err \<Rightarrow> Inl err
      | RaisesJSONDecodeError \<Rightarrow> format_sections e doc_id 0 (fallback_sections sections_text)
      | RaisesKeyError \<Rightarrow> format_sections e doc_id 0 (fallback_sections sections_text)
      | Parsed parsed_sections \<Rightarrow> format_sections e doc_id 0 parsed_sections)"

text \<open>\<open>_create_embedding\<close> (lines 193-199), as the \<open>k\<close>-th request of the call.\<close>

definition create_embedding :: "env \<Rightarrow> nat \<Rightarrow> string \<Rightarrow> py_error + vec" where
  "create_embedding e k text = embed_oracle e k (take 8000 text)"

datatype outcome = Returned | Raised py_error

text \<open>
  The loop of lines 108-114: the embedding is requested first, then section and embedding
  are appended. An exception leaves what earlier iterations appended.
\<close>

fun embed_sections :: "env \<Rightarrow> nat \<Rightarrow> section_rec list \<Rightarrow> store \<Rightarrow> outcome \<times> store" where
  "embed_sections e k [] st = (Returned, st)"
| "embed_sections e k (s # ss) st =
     (case create_embedding e k (content_s s) of
        Inl err \<Rightarrow> (Raised err, st)
      | Inr embedding \<Rightarrow>
          embed_sections e (k + 1) ss
            (st\<lparr>sections := sections st @ [s], embeddings := embeddings st @ [embedding]\<rparr>))"

text \<open>
  \<open>_extract_text_from_pdf\<close> (lines 119-128) and \<open>_extract_text_from_docx\<close> (lines 130-139):
  two newlines after every page, one after every paragraph.
\<close>

definition extract_text_from_pdf :: "env \<Rightarrow> string \<Rightarrow> py_error + string" where
  "extract_text_from_pdf e content =
     (case pdf_pages e content of
        Inl err \<Rightarrow> Inl err
      | Inr pages \<Rightarrow> Inr (concat (map (\<lambda>page. page @ [CHR 0x0A, CHR 0x0A]) pages)))"

definition extract_text_from_docx :: "env \<Rightarrow> string \<Rightarrow> py_error + string" where
  "extract_text_from_docx e content =
     (case docx_paragraphs e content of
        Inl err \<Rightarrow> Inl err
      | Inr paras \<Rightarrow> Inr (concat (map (\<lambda>para. para @ [CHR 0x0A]) paras)))"

text \<open>Lines 80-91: the extension of the file name selects the extractor.\<close>

definition file_extension :: "upload \<Rightarrow> string" where
  "file_extension f = lower (snd (splitext (name_f f)))"

definition extract_text :: "env \<Rightarrow> upload \<Rightarrow> py_error + string" where
  "extract_text e f =
     (if file_extension f = ''.pdf'' then extract_text_from_pdf e (content_f f)
      else if file_extension f = ''.docx'' then extract_text_from_docx e (content_f f)
      else if file_extension f = ''.txt'' then decode_utf8 e (content_f f)
      else Inl ValueError)"

text \<open>Lines 94-101: the document record.\<close>

definition new_document :: "env \<Rightarrow> upload \<Rightarrow> document" where
  "new_document e f =
     \<lparr>id_d = uuid_doc e,
      filename_d = name_f f,
      type_d = drop 1 (file_extension f),
      size_d = length (content_f f),
      processed_date_d = now e\<rparr>"

text \<open>
  \<open>process_document\<close> (lines 71-117): the outcome, the store and the disk after the call.
  \<open>_save_data\<close> is reached only when nothing raised.
\<close>

definition process_document :: "env \<Rightarrow> upload \<Rightarrow> store \<Rightarrow> disk \<Rightarrow> outcome \<times> store \<times> disk" where
  "process_document e f st d =
     (case extract_text e f of
        Inl err \<Rightarrow> (Raised err, st, d)
      | Inr text \<Rightarrow>
          (let st1 = st\<lparr>documents := documents st @ [new_document e f]\<rparr> in
           case split_into_sections e text (uuid_doc e) of
             Inl err \<Rightarrow> (Raised err, st1, d)
           | Inr secs \<Rightarrow>
               (case embed_sections e 0 secs st1 of
                  (Raised err, st2) \<Rightarrow> (Raised err, st2, d)
                | (Returned, st2) \<Rightarrow> (Returned, st2, save_data st2 d))))"

text \<open>The upload loop of \<open>main.py\<close> (lines 62-65): it stops at the first exception.\<close>

fun process_documents :: "(env \<times> upload) list \<Rightarrow> store \<Rightarrow> disk \<Rightarrow> outcome \<times> store \<times> disk" where
  "process_documents [] st d = (Returned, st, d)"
| "process_documents ((e, f) # rest) st d =
     (case process_document e f st d of
        (Raised err, st', d') \<Rightarrow> (Raised err, st', d')
      | (Returned, st', d') \<Rightarrow> process_documents rest st' d')"

text \<open>The invariant of the store: aligned lengths, and every section's document is stored.\<close>

definition aligned :: "store \<Rightarrow> bool" where
  "aligned st = (length (sections st) = length (embeddings st))"

definition resolves :: "store \<Rightarrow> bool" where
  "resolves st = list_all (\<lambda>s. list_ex (\<lambda>doc. id_d doc = document_id_s s) (documents st)) (sections st)"

subsection \<open>Numeric values\<close>

text \<open>
  A float64 that a division produced: a finite value, an infinity or NaN. Finite
  arithmetic is exact in this model; only the special values of a division by zero are
  kept apart, as IEEE 754 and numpy give them (with a warning, not an exception).
\<close>

datatype npfloat = Fin real | PInf | NInf | NaN

definition np_divide :: "real \<Rightarrow> real \<Rightarrow> npfloat" where
  "np_divide x y =
     (if y \<noteq> 0 then Fin (x / y)
      else if x = 0 then NaN
      else if x > 0 then PInf
      else NInf)"


text \<open>\<open>np.dot\<close> of two vectors of one length, and \<open>np.linalg.norm\<close> of a vector.\<close>

definition dot :: "vec \<Rightarrow> vec \<Rightarrow> real" where
  "dot a b = sum_list (map2 (*) a b)"

definition linalg_norm :: "vec \<Rightarrow> real" where
  "linalg_norm a = sqrt (sum_list (map (\<lambda>x. x * x) a))"

text \<open>The quotient of lines 223-225 and of lines 292-294, for one pair of vectors.\<close>

definition cosine_similarity :: "vec \<Rightarrow> vec \<Rightarrow> npfloat" where
  "cosine_similarity a b = np_divide (dot a b) (linalg_norm a * linalg_norm b)"

text \<open>
  Lines 220-225: \<open>np.array\<close> needs rows of one length, \<open>np.dot\<close> of the matrix with the
  query needs that length to be the query's; both raise \<open>ValueError\<close> otherwise.
\<close>

definition similarities :: "vec list \<Rightarrow> vec \<Rightarrow> py_error + npfloat list" where
  "similarities embs query_embedding =
     (case np_array embs of
        Inl err \<Rightarrow> Inl err
      | Inr embeddings_array \<Rightarrow>
          if list_all (\<lambda>row. length row = length query_embedding) embeddings_array
          then Inr (map (\<lambda>row. cosine_similarity row query_embedding) embeddings_array)
          else Inl ValueError)"

text \<open>
  The order \<open>np.argsort\<close> sorts by: ascending, NaN after every number. numpy promises no
  order among the positions of equal values (its default sort is not stable). Here they
  are kept in index order, which is what numpy returns for two equal values; only the
  two-element tie of C3 depends on that choice, the order of the scores does not.
\<close>

definition sort_rank :: "npfloat \<Rightarrow> nat \<times> real" where
  "sort_rank a = (case a of NInf \<Rightarrow> (0, 0) | Fin r \<Rightarrow> (1, r) | PInf \<Rightarrow> (2, 0) | NaN \<Rightarrow> (3, 0))"

definition argsort :: "npfloat list \<Rightarrow> nat list" where
  "argsort xs = map fst (sort_key (\<lambda>p. sort_rank (snd p)) (enumerate 0 xs))"

text \<open>
  The Python slice \<open>xs[start:]\<close>: a negative start counts from the end and is clipped at
  the beginning, a start beyond the end gives the empty list.
\<close>

definition slice_from :: "int \<Rightarrow> 'a list \<Rightarrow> 'a list" where
  "slice_from start xs =
     (if start < 0 then drop (nat (max 0 (int (length xs) + start))) xs
      else drop (nat start) xs)"

subsection \<open>Search\<close>

text \<open>The dictionary of lines 236-243; the score is \<open>float(similarities[idx])\<close>.\<close>

record search_result =
  id_r :: string
  document_r :: string
  section_r :: string
  content_r :: string
  score_r :: npfloat
  title_r :: string

text \<open>Line 234: the first document with the section's \<open>document_id\<close>, or \<open>Unknown\<close>.\<close>

definition document_filename :: "document list \<Rightarrow> string \<Rightarrow> string" where
  "document_filename docs doc_id =
     (case find (\<lambda>d. id_d d = doc_id) docs of Some d \<Rightarrow> filename_d d | None \<Rightarrow> ''Unknown'')"

definition make_result :: "store \<Rightarrow> npfloat list \<Rightarrow> nat \<Rightarrow> search_result" where
  "make_result st sims idx =
     (let section = sections st ! idx in
      \<lparr>id_r = id_s section,
       document_r = document_filename (documents st) (document_id_s section),
       section_r = title_s section,
       content_r = (if length (content_s section) > 300
                    then take 300 (content_s section) @ ''...''
                    else content_s section),
       score_r = sims ! idx,
       title_r = title_s section\<rparr>)"

text \<open>The loop of lines 231-243: \<open>self.sections[idx]\<close> raises \<open>IndexError\<close> out of range.\<close>

fun collect_results :: "store \<Rightarrow> npfloat list \<Rightarrow> nat list \<Rightarrow> py_error + search_result list" where
  "collect_results st sims [] = Inr []"
| "collect_results st sims (idx # rest) =
     (if idx < length (sections st)
      then (case collect_results st sims rest of
              Inl err \<Rightarrow> Inl err
            | Inr results \<Rightarrow> Inr (make_result st sims idx # results))
      else Inl IndexError)"

text \<open>Line 228: \<open>np.argsort(similarities)[-top_k:][::-1]\<close>.\<close>

definition top_indices :: "npfloat list \<Rightarrow> int \<Rightarrow> nat list" where
  "top_indices sims top_k = rev (slice_from (- top_k) (argsort sims))"

text \<open>\<open>search_standards\<close> (lines 201-245); the query is the only embedding request of the call.\<close>

definition search_standards :: "env \<Rightarrow> store \<Rightarrow> string \<Rightarrow> int \<Rightarrow> py_error + search_result list" where
  "search_standards e st query top_k =
     (case create_embedding e 0 query of
        Inl err \<Rightarrow> Inl err
      | Inr query_embedding \<Rightarrow>
          if length (embeddings st) = 0 then Inr []
          else (case similarities (embeddings st) query_embedding of
                  Inl err \<Rightarrow> Inl err
                | Inr sims \<Rightarrow> collect_results st sims (top_indices sims top_k)))"

subsection \<open>Document network\<close>













subsection \<open>The network C9 describes\<close>




subsection \<open>Example inputs\<close>

text \<open>A text file of two paragraphs, with a segmentation answer that has no \<open>sections\<close> key.\<close>

definition example_env :: env where
  "example_env =
     \<lparr>uuid_doc = ''D1'',
      uuid_section = (\<lambda>i. ''S'' @ str_nat i),
      now = ''2024-01-01T00:00:00'',
      pdf_pages = (\<lambda>b. Inl ExtractionError),
      docx_paragraphs = (\<lambda>b. Inl ExtractionError),
      decode_utf8 = (\<lambda>b. Inr b),
      seg_oracle = (\<lambda>ps. RaisesKeyError),
      embed_oracle = (\<lambda>k t. Inr [1, 0])\<rparr>"

definition example_upload :: upload where
  "example_upload = \<lparr>name_f = ''notes.TXT'', content_f = ''A\<newline>\<newline>B c''\<rparr>"

definition empty_disk :: disk where
  "empty_disk = \<lparr>documents_db = Missing, sections_db = Missing, embeddings_db = Missing\<rparr>"


definition example_calls :: "(env \<times> upload) list" where
  "example_calls = [(example_env, example_upload), (example_env\<lparr>uuid_doc := ''D2''\<rparr>, example_upload)]"

definition failing_env :: env where
  "failing_env = example_env\<lparr>embed_oracle := (\<lambda>k t. if k = 0 then Inr [1, 0] else Inl OracleFailure)\<rparr>"

definition example_sections :: "section_rec list" where
  "example_sections =
     [\<lparr>id_s = ''S0'', document_id_s = ''D1'', index_s = 0, title_s = ''Section 1'',
       content_s = ''A'', word_count_s = 1\<rparr>,
      \<lparr>id_s = ''S1'', document_id_s = ''D1'', index_s = 1, title_s = ''Section 2'',
       content_s = ''B c'', word_count_s = 2\<rparr>]"

text \<open>Stores of one document with two sections, differing in the stored embeddings.\<close>

definition store_of :: "vec list \<Rightarrow> store" where
  "store_of embs =
     \<lparr>documents = [\<lparr>id_d = ''D1'', filename_d = ''notes.TXT'', type_d = ''txt'', size_d = 6,
                     processed_date_d = ''2024-01-01T00:00:00''\<rparr>],
      sections = example_sections,
      embeddings = embs\<rparr>"




section \<open>Properties of the persistence layer\<close>

text \<open>
  C6, as stated: whenever one of the three files is corrupt, \<open>load\<close> leaves all three
  collections empty. False: with a readable documents file and a corrupt sections file the
  documents stay loaded while sections and embeddings are empty.
\<close>

theorem C6_mixed_state_counterexample:
  "\<not> (\<forall>d. some_corrupt d \<longrightarrow> init d = empty_store)"
proof
  assume a: "\<forall>d. some_corrupt d \<longrightarrow> init d = empty_store"
  let ?d = "\<lparr>documents_db = Stored [example_doc], sections_db = Corrupt, embeddings_db = Missing\<rparr>"
  have "some_corrupt ?d" by (simp add: some_corrupt_def)
  with a have "init ?d = empty_store" by blast
  then show False by (simp add: init_def load_data_def empty_store_def)
qed

text \<open>
  C6, amended: \<open>load\<close> always returns a store (it is total: the handler catches every
  exception); when a file is corrupt the embeddings are empty, and the documents and
  sections read before the failing file are kept.
\<close>

theorem C6_load_corrupt:
  assumes "some_corrupt d"
  shows "embeddings (init d) = []
       \<and> documents (init d) = (case documents_db d of Stored ds \<Rightarrow> ds | _ \<Rightarrow> [])
       \<and> sections (init d) =
           (if documents_db d = Corrupt then []
            else case sections_db d of Stored ss \<Rightarrow> ss | _ \<Rightarrow> [])"
  using assms
  by (auto simp: some_corrupt_def init_def load_data_def empty_store_def Let_def
           split: db_file.splits)

theorem C6_load_corrupt_witness:
  "some_corrupt \<lparr>documents_db = Stored [example_doc], sections_db = Stored [example_section],
                 embeddings_db = Corrupt\<rparr>
   \<and> embeddings (init \<lparr>documents_db = Stored [example_doc], sections_db = Stored [example_section],
                 embeddings_db = Corrupt\<rparr>) = []
   \<and> documents (init \<lparr>documents_db = Stored [example_doc], sections_db = Stored [example_section],
                 embeddings_db = Corrupt\<rparr>) = [example_doc]
   \<and> sections (init \<lparr>documents_db = Stored [example_doc], sections_db = Stored [example_section],
                 embeddings_db = Corrupt\<rparr>) = [example_section]"
proof -
  let ?d = "\<lparr>documents_db = Stored [example_doc], sections_db = Stored [example_section],
             embeddings_db = Corrupt\<rparr>"
  have h: "some_corrupt ?d" by (simp add: some_corrupt_def)
  from C6_load_corrupt [OF h] h show ?thesis by simp
qed

text \<open>
  C7, as stated: for every store and every disk, saving and then loading in a fresh
  session gives the store back, also when the embedding list is empty. False: an empty
  embedding list is not written, so an array file already on disk is read back. The
  store of the example is the one \<open>__init__\<close> builds from that disk.
\<close>

theorem C7_stale_embeddings_counterexample:
  "init \<lparr>documents_db = Corrupt, sections_db = Missing, embeddings_db = Stored [[1]]\<rparr>
     = empty_store
   \<and> init (save_data empty_store
           \<lparr>documents_db = Corrupt, sections_db = Missing, embeddings_db = Stored [[1]]\<rparr>)
     = \<lparr>documents = [], sections = [], embeddings = [[1]]\<rparr>"
  by (simp add: init_def load_data_def save_data_def empty_store_def)

text \<open>
  C7, amended: saving and then loading in a fresh session gives back the same documents,
  sections and embedding rows in the same order when the embedding list is non-empty with
  rows of one length, or when it is empty and no array file exists on disk.
\<close>

theorem C7_save_load_roundtrip:
  assumes "(embeddings st \<noteq> [] \<and> rectangular (embeddings st))
         \<or> (embeddings st = [] \<and> embeddings_db d = Missing)"
  shows "init (save_data st d) = st"
  using assms
  by (auto simp: init_def load_data_def save_data_def empty_store_def np_array_def Let_def)

theorem C7_save_load_roundtrip_witness:
  "rectangular [[1, 0], [0, 1]]
   \<and> init (save_data \<lparr>documents = [example_doc], sections = [example_section, example_section],
                      embeddings = [[1, 0], [0, 1]]\<rparr>
                     \<lparr>documents_db = Missing, sections_db = Corrupt, embeddings_db = Stored [[5]]\<rparr>)
     = \<lparr>documents = [example_doc], sections = [example_section, example_section],
        embeddings = [[1, 0], [0, 1]]\<rparr>"
proof -
  have r: "rectangular [[1, 0], [0, 1]]" by (simp add: rectangular_def)
  have "(embeddings \<lparr>documents = [example_doc], sections = [example_section, example_section],
                      embeddings = [[1, 0], [0, 1]]\<rparr> \<noteq> []
         \<and> rectangular (embeddings \<lparr>documents = [example_doc],
                      sections = [example_section, example_section],
                      embeddings = [[1, 0], [0, 1]]\<rparr>))
       \<or> (embeddings \<lparr>documents = [example_doc], sections = [example_section, example_section],
                      embeddings = [[1, 0], [0, 1]]\<rparr> = []
         \<and> embeddings_db \<lparr>documents_db = Missing, sections_db = Corrupt,
                      embeddings_db = Stored [[5]]\<rparr> = Missing)"
    using r by simp
  from C7_save_load_roundtrip [OF this] r show ?thesis by simp
qed

text \<open>
  C8, as stated: when the persisted embedding rows and the persisted sections differ in
  number, the loaded store is not left misaligned (the load is rejected or repaired).
  False: one section and two rows are loaded as they are.
\<close>

theorem C8_misaligned_load_counterexample:
  "length (sections (init \<lparr>documents_db = Stored [example_doc],
                           sections_db = Stored [example_section],
                           embeddings_db = Stored [[1, 0], [0, 1]]\<rparr>)) = 1
   \<and> length (embeddings (init \<lparr>documents_db = Stored [example_doc],
                           sections_db = Stored [example_section],
                           embeddings_db = Stored [[1, 0], [0, 1]]\<rparr>)) = 2"
  by (simp add: init_def load_data_def empty_store_def)

text \<open>
  C8, amended: \<open>load\<close> compares no counts. When the three files can be read, the loaded
  collections are exactly the persisted ones, whatever their lengths.
\<close>

theorem C8_load_accepts_as_persisted:
  "init \<lparr>documents_db = Stored ds, sections_db = Stored ss, embeddings_db = Stored es\<rparr>
   = \<lparr>documents = ds, sections = ss, embeddings = es\<rparr>"
  by (simp add: init_def load_data_def empty_store_def)

section \<open>Properties of ingestion\<close>

lemma format_sections_document_id:
  "format_sections e doc_id i items = Inr secs \<Longrightarrow> \<forall>s\<in>set secs. document_id_s s = doc_id"
proof (induction e doc_id i items arbitrary: secs rule: format_sections.induct)
  case (1 e doc_id i)
  then show ?case by simp
next
  case (2 e doc_id i rest)
  then show ?case by simp
next
  case (3 e doc_id i t c rest)
  then show ?case by (auto split: sum.splits)
qed

lemma split_into_sections_document_id:
  "split_into_sections e text doc_id = Inr secs \<Longrightarrow> \<forall>s\<in>set secs. document_id_s s = doc_id"
  by (auto simp: split_into_sections_def Let_def split: seg_response.splits
           dest: format_sections_document_id)

lemma embed_sections_appends:
  "embed_sections e k secs st = (out, st') \<Longrightarrow>
   documents st' = documents st \<and>
   (\<exists>n vs. n \<le> length secs \<and> length vs = n \<and> sections st' = sections st @ take n secs
        \<and> embeddings st' = embeddings st @ vs \<and> (out = Returned \<longrightarrow> n = length secs))"
proof (induction secs arbitrary: k st)
  case Nil
  then show ?case by auto
next
  case (Cons s ss)
  show ?case
  proof (cases "create_embedding e k (content_s s)")
    case (Inl err)
    with Cons.prems have "st' = st" "out = Raised err" by auto
    then show ?thesis by (intro conjI exI[of _ 0] exI[of _ "[]"]) auto
  next
    case (Inr v)
    let ?st1 = "st\<lparr>sections := sections st @ [s], embeddings := embeddings st @ [v]\<rparr>"
    from Inr Cons.prems have "embed_sections e (k + 1) ss ?st1 = (out, st')" by simp
    from Cons.IH [OF this] obtain n vs where
      d: "documents st' = documents st" and
      n: "n \<le> length ss" "length vs = n" "sections st' = sections st @ s # take n ss"
         "embeddings st' = embeddings st @ v # vs" "out = Returned \<longrightarrow> n = length ss"
      by auto
    show ?thesis using d n
      by (intro conjI exI[of _ "Suc n"] exI[of _ "v # vs"]) auto
  qed
qed

lemma process_document_invariant:
  assumes "process_document e f st d = (out, st', d')" "aligned st" "resolves st"
  shows "aligned st' \<and> resolves st'"
proof (cases "extract_text e f")
  case (Inl err)
  with assms show ?thesis by (simp add: process_document_def)
next
  case (Inr body)
  let ?st1 = "st\<lparr>documents := documents st @ [new_document e f]\<rparr>"
  have r1: "aligned ?st1" "resolves ?st1"
    using assms(2,3) by (auto simp: aligned_def resolves_def list_all_iff list_ex_iff)
  show ?thesis
  proof (cases "split_into_sections e body (uuid_doc e)")
    case (Inl err)
    with Inr assms(1) have "st' = ?st1" by (simp add: process_document_def Let_def)
    with r1 show ?thesis by simp
  next
    case (Inr secs)
    obtain o2 st2 where es: "embed_sections e 0 secs ?st1 = (o2, st2)" by force
    have st2: "st' = st2"
      using assms(1) \<open>extract_text e f = Inr body\<close> Inr es
      by (cases o2) (auto simp: process_document_def Let_def)
    from embed_sections_appends [OF es] obtain n vs where
      n: "documents st2 = documents ?st1" "length vs = n" "sections st2 = sections ?st1 @ take n secs"
         "embeddings st2 = embeddings ?st1 @ vs" "n \<le> length secs"
      by auto
    have did: "\<forall>s\<in>set secs. document_id_s s = uuid_doc e"
      using split_into_sections_document_id [OF Inr] .
    have "aligned st2" using n r1(1) by (simp add: aligned_def)
    moreover have "resolves st2"
      using n r1(2) did
      by (auto simp: resolves_def list_all_iff list_ex_iff new_document_def dest!: in_set_takeD)
    ultimately show ?thesis using st2 by simp
  qed
qed

lemma process_documents_invariant:
  "process_documents calls st d = (out, st', d') \<Longrightarrow> aligned st \<Longrightarrow> resolves st
   \<Longrightarrow> aligned st' \<and> resolves st'"
proof (induction calls arbitrary: st d)
  case Nil
  then show ?case by simp
next
  case (Cons c calls)
  obtain e f where c: "c = (e, f)" by (cases c)
  obtain o1 st1 d1 where p: "process_document e f st d = (o1, st1, d1)" by (cases "process_document e f st d")
  from process_document_invariant [OF p Cons.prems(2,3)] have i1: "aligned st1" "resolves st1" by auto
  show ?case
  proof (cases o1)
    case Returned
    with Cons.prems(1) c p have "process_documents calls st1 d1 = (out, st', d')" by simp
    from Cons.IH [OF this i1] show ?thesis .
  next
    case (Raised err)
    with Cons.prems(1) c p have "st' = st1" by simp
    with i1 show ?thesis by simp
  qed
qed

text \<open>
  C1: after any sequence of \<open>process_document\<close> calls that all returned, started from
  empty collections, sections and embeddings have one length and every section's
  \<open>document_id\<close> is the \<open>id\<close> of a stored document.
\<close>

theorem C1_process_documents_invariant:
  assumes "process_documents calls empty_store d = (Returned, st, d')"
  shows "length (sections st) = length (embeddings st)
       \<and> (\<forall>s\<in>set (sections st). \<exists>doc\<in>set (documents st). id_d doc = document_id_s s)"
proof -
  have "aligned empty_store" "resolves empty_store"
    by (simp_all add: aligned_def resolves_def empty_store_def)
  from process_documents_invariant [OF assms this]
  show ?thesis by (simp add: aligned_def resolves_def list_all_iff list_ex_iff)
qed

theorem C1_process_documents_invariant_witness:
  "(case process_documents example_calls empty_store empty_disk of
      (out, st, d') \<Rightarrow> out = Returned \<and> length (sections st) = 4 \<and> length (embeddings st) = 4
                        \<and> resolves st)"
proof -
  have "fst (process_documents example_calls empty_store empty_disk) = Returned"
    by code_simp
  then obtain st d' where e: "process_documents example_calls empty_store empty_disk = (Returned, st, d')"
    by (cases "process_documents example_calls empty_store empty_disk") auto
  have "length (sections (fst (snd (process_documents example_calls empty_store empty_disk)))) = 4"
    by code_simp
  with e have l: "length (sections st) = 4" by simp
  from C1_process_documents_invariant [OF e] l show ?thesis
    using e by (simp add: resolves_def list_all_iff list_ex_iff)
qed

lemma embed_sections_fails_at:
  "k < length secs \<Longrightarrow> length vs = k
   \<Longrightarrow> \<forall>i<k. create_embedding e (j + i) (content_s (secs ! i)) = Inr (vs ! i)
   \<Longrightarrow> create_embedding e (j + k) (content_s (secs ! k)) = Inl err
   \<Longrightarrow> embed_sections e j secs st
       = (Raised err, st\<lparr>sections := sections st @ take k secs, embeddings := embeddings st @ vs\<rparr>)"
proof (induction secs arbitrary: k vs j st)
  case Nil
  then show ?case by simp
next
  case (Cons s ss)
  show ?case
  proof (cases k)
    case 0
    with Cons.prems show ?thesis by simp
  next
    case (Suc k')
    with Cons.prems(2) obtain v vs' where vs: "vs = v # vs'" "length vs' = k'"
      by (cases vs) auto
    from Cons.prems(3) Suc have h0: "create_embedding e j (content_s s) = Inr v"
      using vs by (auto dest: spec[of _ 0])
    have hi: "\<forall>i<k'. create_embedding e (Suc j + i) (content_s (ss ! i)) = Inr (vs' ! i)"
    proof (intro allI impI)
      fix i assume "i < k'"
      then have "Suc i < k" using Suc by simp
      with Cons.prems(3) have "create_embedding e (j + Suc i) (content_s ((s # ss) ! Suc i)) = Inr (vs ! Suc i)"
        by blast
      then show "create_embedding e (Suc j + i) (content_s (ss ! i)) = Inr (vs' ! i)"
        using vs by simp
    qed
    have hk: "create_embedding e (Suc j + k') (content_s (ss ! k')) = Inl err"
      using Cons.prems(4) Suc by simp
    have kl: "k' < length ss" using Cons.prems(1) Suc by simp
    from Cons.IH [OF kl vs(2) hi hk] h0 show ?thesis
      using Suc vs by simp
  qed
qed

text \<open>
  C10: when the embedding request for section \<open>k\<close> (counted from 0) raises, the call raises,
  the store holds the new document record and the first \<open>k\<close> sections with their
  embeddings, the two lengths stay equal, and the disk is as it was before the call.
\<close>

theorem C10_embedding_failure_partial:
  assumes "extract_text e f = Inr text"
    and "split_into_sections e text (uuid_doc e) = Inr secs"
    and "k < length secs"
    and "length vs = k"
    and "\<forall>i<k. create_embedding e i (content_s (secs ! i)) = Inr (vs ! i)"
    and "create_embedding e k (content_s (secs ! k)) = Inl err"
    and "length (sections st) = length (embeddings st)"
  shows "\<exists>st'. process_document e f st d = (Raised err, st', d)
          \<and> documents st' = documents st @ [new_document e f]
          \<and> sections st' = sections st @ take k secs
          \<and> embeddings st' = embeddings st @ vs
          \<and> length (sections st') = length (embeddings st')"
proof -
  let ?st1 = "st\<lparr>documents := documents st @ [new_document e f]\<rparr>"
  have "embed_sections e 0 secs ?st1
        = (Raised err, ?st1\<lparr>sections := sections ?st1 @ take k secs,
                             embeddings := embeddings ?st1 @ vs\<rparr>)"
    using embed_sections_fails_at [of k secs vs e 0 err ?st1] assms(3-6) by simp
  then show ?thesis
    using assms(1,2,3,4,7) by (simp add: process_document_def Let_def)
qed


theorem C10_embedding_failure_partial_witness:
  "process_document failing_env example_upload empty_store empty_disk
   = (Raised OracleFailure,
      \<lparr>documents = [new_document failing_env example_upload],
       sections = take 1 example_sections,
       embeddings = [[1, 0]]\<rparr>,
      empty_disk)"
proof -
  have h1: "extract_text failing_env example_upload = Inr ''A\<newline>\<newline>B c''"
    by code_simp
  have h2: "split_into_sections failing_env ''A\<newline>\<newline>B c'' (uuid_doc failing_env) = Inr example_sections"
    by code_simp
  have h3: "1 < length example_sections"
    by (simp add: example_sections_def)
  have h4: "length [[1, 0 :: real]] = 1"
    by simp
  have "create_embedding failing_env 0 (content_s (example_sections ! 0)) = Inr ([[1, 0]] ! 0)"
    by code_simp
  then have h5: "\<forall>i<1. create_embedding failing_env i (content_s (example_sections ! i)) = Inr ([[1, 0]] ! i)"
    by simp
  have h6: "create_embedding failing_env 1 (content_s (example_sections ! 1)) = Inl OracleFailure"
    by code_simp
  have h7: "length (sections empty_store) = length (embeddings empty_store)"
    by (simp add: empty_store_def)
  from C10_embedding_failure_partial [OF h1 h2 h3 h4 h5 h6 h7, of empty_disk]
  obtain st' where
    "process_document failing_env example_upload empty_store empty_disk = (Raised OracleFailure, st', empty_disk)"
    "documents st' = documents empty_store @ [new_document failing_env example_upload]"
    "sections st' = sections empty_store @ take 1 example_sections"
    "embeddings st' = embeddings empty_store @ [[1, 0]]"
    by blast
  then show ?thesis by (cases st') (simp add: empty_store_def)
qed

section \<open>Properties of the segmentation fallback\<close>















section \<open>Properties of the similarity search\<close>

lemma linalg_norm_zero_iff: "linalg_norm a = 0 \<longleftrightarrow> (\<forall>x\<in>set a. x = 0)"
proof -
  have "sum_list (map (\<lambda>x. x * x) a) = 0 \<longleftrightarrow> (\<forall>y\<in>set (map (\<lambda>x. x * x) a). y = 0)"
    by (rule sum_list_nonneg_eq_0_iff) auto
  then show ?thesis by (simp add: linalg_norm_def)
qed

lemma dot_zero_left: "\<forall>x\<in>set a. x = 0 \<Longrightarrow> dot a b = 0"
proof (induction a arbitrary: b)
  case Nil
  then show ?case by (simp add: dot_def)
next
  case (Cons x a)
  then show ?case by (cases b) (auto simp: dot_def)
qed

lemma dot_zero_right: "\<forall>x\<in>set b. x = 0 \<Longrightarrow> dot a b = 0"
proof (induction a arbitrary: b)
  case Nil
  then show ?case by (simp add: dot_def)
next
  case (Cons x a)
  then show ?case by (cases b) (auto simp: dot_def)
qed

lemma cosine_similarity_cases:
  "cosine_similarity a b =
     (if linalg_norm a \<noteq> 0 \<and> linalg_norm b \<noteq> 0
      then Fin (dot a b / (linalg_norm a * linalg_norm b))
      else NaN)"
  using dot_zero_left [of a b] dot_zero_right [of b a]
  by (auto simp: cosine_similarity_def np_divide_def linalg_norm_zero_iff)

lemma similarities_nth:
  assumes "similarities embs q = Inr sims"
  shows "length sims = length embs \<and> (\<forall>i<length embs. sims ! i = cosine_similarity (embs ! i) q)"
  using assms
  by (auto simp: similarities_def np_array_def split: if_splits)

text \<open>
  C4, as stated: a stored embedding or a query of norm zero gives similarity 0, never NaN.
  False: for the stored rows \<open>[0,0]\<close> and \<open>[1,0]\<close> and the query \<open>[1,0]\<close> the scores returned
  are NaN and 1.
\<close>

theorem C4_zero_norm_counterexample:
  "(case search_standards example_env (store_of [[0, 0], [1, 0]]) ''q'' 5 of
      Inl err \<Rightarrow> []
    | Inr rs \<Rightarrow> map score_r rs) = [NaN, Fin 1]"
  by (simp add: search_standards_def create_embedding_def example_env_def store_of_def
        similarities_def np_array_def rectangular_def cosine_similarity_def np_divide_def
        dot_def linalg_norm_def top_indices_def slice_from_def argsort_def enumerate_eq_zip
        sort_rank_def upt_rec make_result_def example_sections_def)

text \<open>
  C4, amended: each similarity computed by \<open>search_standards\<close> is
  \<open>dot(a,b) / (norm(a) * norm(b))\<close> when both norms are non-zero, and NaN (the quotient
  \<open>0/0\<close>, no exception) when the stored vector or the query has norm zero.
\<close>

theorem C4_similarity_formula:
  assumes "similarities embs q = Inr sims" and "i < length embs"
  shows "sims ! i =
           (if linalg_norm (embs ! i) \<noteq> 0 \<and> linalg_norm q \<noteq> 0
            then Fin (dot (embs ! i) q / (linalg_norm (embs ! i) * linalg_norm q))
            else NaN)"
  using similarities_nth [OF assms(1)] assms(2)
  by (simp only: cosine_similarity_cases)

theorem C4_similarity_formula_witness:
  "similarities [[0, 0], [3, 4]] [1, 0] = Inr [NaN, Fin (3 / 5)]
   \<and> [NaN, Fin (3 / 5)] ! 1 = Fin (dot [3, 4] [1, 0] / (linalg_norm [3, 4] * linalg_norm [1, 0]))"
proof -
  have n34: "linalg_norm [3, 4] = 5"
  proof -
    have "sqrt ((5::real)\<^sup>2) = 5" by simp
    moreover have "(3::real) * 3 + 4 * 4 = 5\<^sup>2" by (simp add: power2_eq_square)
    ultimately show ?thesis by (simp add: linalg_norm_def)
  qed
  have n10: "linalg_norm [1, 0] = 1" and n00: "linalg_norm [0, 0] = 0"
    by (simp_all add: linalg_norm_def)
  have s: "similarities [[0, 0], [3, 4]] [1, 0] = Inr [NaN, Fin (3 / 5)]"
    by (simp add: similarities_def np_array_def rectangular_def cosine_similarity_def
          np_divide_def dot_def n34 n10 n00)
  have "1 < length [[0, 0], [3, 4 :: real]]" by simp
  from C4_similarity_formula [OF s this] s show ?thesis
    by (simp add: n34 n10)
qed

lemma argsort_length: "length (argsort xs) = length xs"
  by (simp add: argsort_def)

lemma argsort_set: "set (argsort xs) = {0..<length xs}"
proof -
  have "set (argsort xs) = set (map fst (enumerate 0 xs))"
    by (simp add: argsort_def del: map_fst_enumerate)
  also have "map fst (enumerate 0 xs) = [0..<0 + length xs]"
    by (rule map_fst_enumerate)
  finally show ?thesis by simp
qed

lemma argsort_sorted: "sorted (map (\<lambda>i. sort_rank (xs ! i)) (argsort xs))"
proof -
  let ?ps = "sort_key (\<lambda>p. sort_rank (snd p)) (enumerate 0 xs)"
  have h: "\<forall>p\<in>set ?ps. snd p = xs ! fst p"
    by (auto simp: in_set_enumerate_eq)
  have eq: "map (\<lambda>i. sort_rank (xs ! i)) (map fst ?ps) = map (\<lambda>p. sort_rank (snd p)) ?ps"
    unfolding map_map comp_def by (rule map_cong) (use h in auto)
  show ?thesis
    unfolding argsort_def eq by (rule sorted_sort_key)
qed

lemma top_indices_set: "set (top_indices sims k) \<subseteq> {0..<length sims}"
  using argsort_set [of sims]
  by (auto simp: top_indices_def slice_from_def dest: in_set_dropD)

lemma top_indices_length:
  "0 \<le> k \<Longrightarrow> length (top_indices sims k)
     = (if k = 0 then length sims else min (nat k) (length sims))"
  by (auto simp: top_indices_def slice_from_def argsort_length)

lemma top_indices_descending:
  "sorted_wrt (\<lambda>a b. sort_rank b \<le> sort_rank a) (map (\<lambda>i. sims ! i) (top_indices sims k))"
proof -
  let ?f = "\<lambda>i. sort_rank (sims ! i)"
  have d: "\<exists>n. slice_from (- k) (argsort sims) = drop n (argsort sims)"
    by (auto simp: slice_from_def)
  then obtain n where n: "slice_from (- k) (argsort sims) = drop n (argsort sims)" ..
  have "sorted (map ?f (drop n (argsort sims)))"
    using argsort_sorted [of sims] by (simp add: drop_map [symmetric] sorted_wrt_drop)
  then have "sorted_wrt (\<lambda>a b. b \<le> a) (rev (map ?f (drop n (argsort sims))))"
    by (simp add: sorted_wrt_rev)
  then have "sorted_wrt (\<lambda>a b. b \<le> a) (map ?f (top_indices sims k))"
    by (simp add: top_indices_def n rev_map)
  then show ?thesis
    by (simp add: sorted_wrt_map)
qed

lemma collect_results_scores:
  "collect_results st sims idxs = Inr rs \<Longrightarrow> map score_r rs = map (\<lambda>i. sims ! i) idxs"
proof (induction idxs arbitrary: rs)
  case Nil
  then show ?case by simp
next
  case (Cons idx rest)
  then show ?case
    by (auto simp: make_result_def Let_def split: if_splits sum.splits)
qed

lemma collect_results_total:
  "\<forall>i\<in>set idxs. i < length (sections st)
   \<Longrightarrow> \<exists>rs. collect_results st sims idxs = Inr rs \<and> length rs = length idxs"
  by (induction idxs) auto

lemma search_standards_length:
  assumes "create_embedding e 0 query = Inr q"
    and "length (sections st) = length (embeddings st)"
    and "\<forall>v\<in>set (embeddings st). length v = length q"
    and "0 \<le> top_k"
  shows "\<exists>rs. search_standards e st query top_k = Inr rs
          \<and> length rs = (if top_k = 0 then length (sections st)
                         else min (nat top_k) (length (sections st)))"
proof (cases "embeddings st = []")
  case True
  with assms(1,2) show ?thesis by (simp add: search_standards_def)
next
  case False
  have rect: "rectangular (embeddings st)"
    using assms(3) by (auto simp: rectangular_def list_all_iff split: list.splits)
  let ?sims = "map (\<lambda>row. cosine_similarity row q) (embeddings st)"
  have s: "similarities (embeddings st) q = Inr ?sims"
    using rect assms(3) by (simp add: similarities_def np_array_def list_all_iff)
  have "\<forall>i\<in>set (top_indices ?sims top_k). i < length (sections st)"
    using top_indices_set [of ?sims top_k] assms(2) by auto
  from collect_results_total [OF this, of ?sims] obtain rs where
    rs: "collect_results st ?sims (top_indices ?sims top_k) = Inr rs"
        "length rs = length (top_indices ?sims top_k)"
    by blast
  have "search_standards e st query top_k = Inr rs"
    using assms(1) False s rs(1) by (simp add: search_standards_def)
  moreover have "length rs = (if top_k = 0 then length (sections st)
                              else min (nat top_k) (length (sections st)))"
    using rs(2) top_indices_length [OF assms(4), of ?sims] assms(2) by simp
  ultimately show ?thesis by blast
qed

text \<open>
  C2 at \<open>top_k = 0\<close>: the slice \<open>[-0:]\<close> is the whole array, so a store of two sections
  returns two results where \<open>min(0, 2) = 0\<close> are claimed.
\<close>

theorem C2_top_k_zero_returns_all:
  "(case search_standards example_env (store_of [[0, 1], [1, 0]]) ''q'' 0 of
      Inl err \<Rightarrow> []
    | Inr rs \<Rightarrow> map id_r rs) = [''S1'', ''S0'']"
  by (simp add: search_standards_def create_embedding_def example_env_def store_of_def
        similarities_def np_array_def rectangular_def cosine_similarity_def np_divide_def
        dot_def linalg_norm_def top_indices_def slice_from_def argsort_def enumerate_eq_zip
        sort_rank_def upt_rec make_result_def example_sections_def)

text \<open>
  C3, as stated: of two sections with equal similarity the earlier one comes first.
  False: two sections with the same embedding are returned later one first, and with
  \<open>top_k = 1\<close> the later one is the one returned.
\<close>

theorem C3_tie_order_counterexample:
  "(case search_standards example_env (store_of [[1, 0], [1, 0]]) ''q'' 5 of
      Inl err \<Rightarrow> []
    | Inr rs \<Rightarrow> map id_r rs) = [''S1'', ''S0'']
   \<and> (case search_standards example_env (store_of [[1, 0], [1, 0]]) ''q'' 1 of
      Inl err \<Rightarrow> []
    | Inr rs \<Rightarrow> map id_r rs) = [''S1'']"
  by (simp add: search_standards_def create_embedding_def example_env_def store_of_def
        similarities_def np_array_def rectangular_def cosine_similarity_def np_divide_def
        dot_def linalg_norm_def top_indices_def slice_from_def argsort_def enumerate_eq_zip
        sort_rank_def upt_rec make_result_def example_sections_def)

text \<open>
  C3, amended: the scores of the result list never increase from one result to the next,
  in the order \<open>np.argsort\<close> sorts by (NaN above every number).
\<close>

theorem C3_scores_descending:
  assumes "search_standards e st query top_k = Inr rs"
  shows "sorted_wrt (\<lambda>a b. sort_rank b \<le> sort_rank a) (map score_r rs)"
proof (cases "create_embedding e 0 query")
  case (Inl err)
  with assms show ?thesis by (simp add: search_standards_def)
next
  case (Inr q)
  show ?thesis
  proof (cases "length (embeddings st) = 0")
    case True
    with assms Inr show ?thesis by (simp add: search_standards_def)
  next
    case False
    with assms Inr obtain sims where
      "similarities (embeddings st) q = Inr sims"
      "collect_results st sims (top_indices sims top_k) = Inr rs"
      by (auto simp: search_standards_def split: sum.splits)
    then show ?thesis
      using collect_results_scores [of st sims "top_indices sims top_k" rs]
            top_indices_descending [of sims top_k]
      by simp
  qed
qed

theorem C3_scores_descending_witness:
  "search_standards example_env (store_of [[0, 1], [1, 0]]) ''q'' 5
     = Inr [make_result (store_of [[0, 1], [1, 0]]) [Fin 0, Fin 1] 1,
            make_result (store_of [[0, 1], [1, 0]]) [Fin 0, Fin 1] 0]
   \<and> sorted_wrt (\<lambda>a b. sort_rank b \<le> sort_rank a) [Fin 1, Fin 0]"
proof -
  have s: "search_standards example_env (store_of [[0, 1], [1, 0]]) ''q'' 5
     = Inr [make_result (store_of [[0, 1], [1, 0]]) [Fin 0, Fin 1] 1,
            make_result (store_of [[0, 1], [1, 0]]) [Fin 0, Fin 1] 0]"
    by (simp add: search_standards_def create_embedding_def example_env_def store_of_def
        similarities_def np_array_def rectangular_def cosine_similarity_def np_divide_def
        dot_def linalg_norm_def top_indices_def slice_from_def argsort_def enumerate_eq_zip
        sort_rank_def upt_rec example_sections_def)
  from C3_scores_descending [OF s] s show ?thesis
    by (simp add: make_result_def Let_def)
qed

section \<open>Properties of the document network\<close>



















end
